theory Spec2Isabelle
  imports Main "HOL-Library.AList"
begin

section \<open>Python values\<close>

text \<open>
  A Python \<^verbatim>\<open>str\<close> is a sequence of Unicode code points, so it is modelled as a list
  of naturals (code points are not bytes: \<^verbatim>\<open>str.strip\<close> removes U+3000 as well as the
  blank). An ASCII literal of the source is written \<open>py ''...''\<close>.
\<close>

type_synonym pystr = "nat list"

abbreviation py :: "string \<Rightarrow> pystr" where
  "py s \<equiv> map of_char s"

text \<open>
  The values that occur in request parameters and in raw elements: \<^verbatim>\<open>None\<close>, strings,
  integers, lists and dictionaries. A dictionary keeps its insertion order, hence an
  association list; \<open>map_of\<close> reads it and \<open>AList.update\<close> is \<^verbatim>\<open>d[k] = v\<close> (the value
  is replaced in place when the key is there, appended otherwise).
\<close>

datatype pyval =
    PNone
  | PStr pystr
  | PInt int
  | PList "pyval list"
  | PDict "(pystr \<times> pyval) list"

type_synonym pydict = "(pystr \<times> pyval) list"

text \<open>
  The exceptions: the three the source raises or lets through, then the two of the
  specification's taxonomy that belong to the parser and the mapper
  (\<^verbatim>\<open>MalformedResponse\<close>, \<^verbatim>\<open>MappingError\<close> with the missing field and the target
  type), and whatever the session raises when a request fails.
\<close>

datatype error =
    ValueError pystr
  | KeyError pystr
  | TypeError
  | MalformedResponse
  | MappingError pystr pystr
  | SessionError pystr

subsection \<open>\<^verbatim>\<open>str(x)\<close> and \<^verbatim>\<open>str.strip()\<close>\<close>

text \<open>
  \<^verbatim>\<open>str.strip()\<close> without argument removes leading and trailing characters for which
  \<^verbatim>\<open>str.isspace\<close> holds; these are the code points below.
\<close>

definition isspace :: "nat \<Rightarrow> bool" where
  "isspace c \<longleftrightarrow>
     (0x09 \<le> c \<and> c \<le> 0x0D) \<or> (0x1C \<le> c \<and> c \<le> 0x20) \<or> c = 0x85 \<or> c = 0xA0 \<or>
     c = 0x1680 \<or> (0x2000 \<le> c \<and> c \<le> 0x200A) \<or> c = 0x2028 \<or> c = 0x2029 \<or>
     c = 0x202F \<or> c = 0x205F \<or> c = 0x3000"

definition strip :: "pystr \<Rightarrow> pystr" where
  "strip s = rev (dropWhile isspace (rev (dropWhile isspace s)))"

text \<open>Decimal digits of a natural number, most significant first.\<close>

fun digits :: "nat \<Rightarrow> pystr" where
  "digits n = (if n < 10 then [48 + n] else digits (n div 10) @ [48 + n mod 10])"

declare digits.simps [simp del]

definition str_int :: "int \<Rightarrow> pystr" where
  "str_int i = (if i < 0 then 45 # digits (nat (- i)) else digits (nat i))"

text \<open>
  \<^verbatim>\<open>str(x)\<close> for the values a caller hands to a constructor: a string is itself, an
  integer its decimal form, \<^verbatim>\<open>None\<close> the text \<^verbatim>\<open>None\<close>.
\<close>

datatype pyarg = AStr pystr | AInt int | ANone

fun str :: "pyarg \<Rightarrow> pystr" where
  "str (AStr s) = s"
| "str (AInt i) = str_int i"
| "str ANone = py ''None''"

section \<open>The lessons adapter\<close>

text \<open>
  \<^verbatim>\<open>SmartschoolLessons._params\<close> reads the clock once (\<^verbatim>\<open>now = int(time.time())\<close>); the
  clock's value is the argument \<open>now\<close>.
\<close>

definition lessons_xpath :: pystr where
  "lessons_xpath = py ''.//lesson''"

definition lessons_subsystem :: pystr where
  "lessons_subsystem = py ''agenda''"

definition lessons_action :: pystr where
  "lessons_action = py ''get lessons''"

definition lessons_params :: "int \<Rightarrow> pydict" where
  "lessons_params now =
     (let in_5_days = now + 5 * 24 * 3600 in
      [(py ''startDateTimestamp'', PInt now),
       (py ''endDateTimestamp'', PInt in_5_days),
       (py ''filterType'', PStr (py ''false'')),
       (py ''filterID'', PStr (py ''false'')),
       (py ''gridType'', PStr (py ''1'')),
       (py ''classID'', PStr (py ''0'')),
       (py ''endDateTimestampOld'', PInt in_5_days),
       (py ''forcedTeacher'', PStr (py ''0'')),
       (py ''forcedClass'', PStr (py ''0'')),
       (py ''forcedClassroom'', PStr (py ''0'')),
       (py ''assignmentTypeID'', PStr (py ''1''))])"

section \<open>The hours adapter\<close>

definition hours_xpath :: pystr where
  "hours_xpath = py ''.//hour''"

definition hours_subsystem :: pystr where
  "hours_subsystem = py ''grid''"

definition hours_action :: pystr where
  "hours_action = py ''get hours''"

definition hours_params :: "int \<Rightarrow> pydict" where
  "hours_params now = [(py ''date'', PInt now)]"

text \<open>
  An hour record has the attribute \<^verbatim>\<open>hourID\<close>; its other attributes (\<^verbatim>\<open>start\<close>,
  \<^verbatim>\<open>end\<close>, \<^verbatim>\<open>title\<close>, ...) are whatever the record scheme carries.
\<close>

record agenda_hour =
  hourID :: pystr

text \<open>
  \<^verbatim>\<open>search_by_hourId\<close> scans the fetched sequence from the front and returns at the
  first hour whose \<^verbatim>\<open>hourID\<close> equals the argument; after the loop it raises
  \<^verbatim>\<open>ValueError(f"Couldn't find {hourId}")\<close>. The argument \<open>hours\<close> is what
  \<^verbatim>\<open>self._xml(date_to_use)\<close> returned.
\<close>

definition couldnt_find :: "pystr \<Rightarrow> pystr" where
  "couldnt_find hourId = py ''Couldn'' @ [39] @ py ''t find '' @ hourId"

fun search_by_hourId :: "'a agenda_hour_scheme list \<Rightarrow> pystr \<Rightarrow> error + 'a agenda_hour_scheme" where
  "search_by_hourId [] hourId = Inl (ValueError (couldnt_find hourId))"
| "search_by_hourId (hour # hours) hourId =
     (if hourID hour = hourId then Inr hour else search_by_hourId hours hourId)"

section \<open>The moment-info adapter\<close>

text \<open>The only attribute of an instance is \<^verbatim>\<open>_moment_id\<close>.\<close>

record moment_infos =
  moment_id :: pystr

definition moment_infos_init :: "pyarg \<Rightarrow> error + moment_infos" where
  "moment_infos_init arg =
     (let m = strip (str arg) in
      if m = [] then Inl (ValueError (py ''Please provide a valid MomentID''))
      else Inr \<lparr>moment_id = m\<rparr>)"

definition moment_infos_xpath :: pystr where
  "moment_infos_xpath = py ''.//class''"

definition moment_infos_subsystem :: pystr where
  "moment_infos_subsystem = py ''agenda''"

definition moment_infos_action :: pystr where
  "moment_infos_action = py ''get moment info''"

definition moment_infos_params :: "moment_infos \<Rightarrow> pydict" where
  "moment_infos_params self =
     [(py ''momentID'', PStr (moment_id self)),
      (py ''dateID'', PStr (py '''')),
      (py ''assignmentIDs'', PStr (py '''')),
      (py ''activityID'', PStr (py ''0''))]"

text \<open>
  Subscription \<^verbatim>\<open>v[k]\<close> with a string key: a dictionary without the key raises
  \<^verbatim>\<open>KeyError\<close>, and a value that is not a dictionary raises \<^verbatim>\<open>TypeError\<close> (a string
  or a list wants an integer index, \<^verbatim>\<open>None\<close> and an integer have no subscription).
\<close>

fun getitem :: "pyval \<Rightarrow> pystr \<Rightarrow> error + pyval" where
  "getitem (PDict d) k = (case map_of d k of None \<Rightarrow> Inl (KeyError k) | Some v \<Rightarrow> Inr v)"
| "getitem _ k = Inl TypeError"

fun isinstance_list :: "pyval \<Rightarrow> bool" where
  "isinstance_list (PList _) = True"
| "isinstance_list _ = False"

text \<open>
  \<^verbatim>\<open>_post_process_element\<close> rewrites the dictionary in place and returns nothing; the
  model returns the rewritten dictionary, or the exception that left it as it was.
\<close>

definition post_process_element :: "pydict \<Rightarrow> error + pydict" where
  "post_process_element element =
     (case getitem (PDict element) (py ''assignments'') of
        Inl e \<Rightarrow> Inl e
      | Inr a \<Rightarrow>
          if a = PNone then Inr (AList.update (py ''assignments'') (PList []) element)
          else (case getitem a (py ''assignment'') of
                  Inl e \<Rightarrow> Inl e
                | Inr x \<Rightarrow>
                    if isinstance_list x
                    then Inr (AList.update (py ''assignments'') x element)
                    else Inr (AList.update (py ''assignments'') (PList [x]) element)))"

section \<open>The class-level caches\<close>

text \<open>
  Each of the three classes of \<^verbatim>\<open>agenda.py\<close> has in its body the statement
  \<^verbatim>\<open>cache: ClassVar[...] = {}\<close>. A dictionary display makes a new object each time it
  is evaluated, so loading the module makes three dictionary objects, in the order of
  the class statements; \<open>cache_ref\<close> is the object each class attribute is bound to
  (nothing in the source binds the attribute again).
\<close>

datatype adapter_class = SmartschoolLessons | SmartschoolHours | SmartschoolMomentInfos

fun cache_ref :: "adapter_class \<Rightarrow> nat" where
  "cache_ref SmartschoolLessons = 0"
| "cache_ref SmartschoolHours = 1"
| "cache_ref SmartschoolMomentInfos = 2"

text \<open>
  A cache maps a key (a \<^verbatim>\<open>str\<close>) to a list of records; the heap gives every dictionary
  object its content.
\<close>

type_synonym 'r cache = "pystr \<rightharpoonup> 'r list"

type_synonym 'r heap = "nat \<Rightarrow> 'r cache"

definition cache_get :: "'r heap \<Rightarrow> adapter_class \<Rightarrow> pystr \<Rightarrow> 'r list option" where
  "cache_get h c key = h (cache_ref c) key"

text \<open>\<^verbatim>\<open>C.cache[key] = records\<close> and \<^verbatim>\<open>C.cache.clear()\<close>.\<close>

definition cache_setitem :: "'r heap \<Rightarrow> adapter_class \<Rightarrow> pystr \<Rightarrow> 'r list \<Rightarrow> 'r heap" where
  "cache_setitem h c key records = h(cache_ref c := (h (cache_ref c))(key \<mapsto> records))"

definition cache_clear :: "'r heap \<Rightarrow> adapter_class \<Rightarrow> 'r heap" where
  "cache_clear h c = h(cache_ref c := Map.empty)"

text \<open>
  The fixture \<^verbatim>\<open>_clear_caches_from_agenda\<close> of \<^verbatim>\<open>conftest.py\<close> walks over the names of
  the module \<^verbatim>\<open>smartschool.agenda\<close> and calls \<^verbatim>\<open>v.cache.clear()\<close> on every class with an
  attribute \<^verbatim>\<open>cache\<close>: the three adapter classes, in the order of their definition.
\<close>

definition clear_caches_from_agenda :: "'r heap \<Rightarrow> 'r heap" where
  "clear_caches_from_agenda h =
     foldl cache_clear h [SmartschoolLessons, SmartschoolHours, SmartschoolMomentInfos]"

text \<open>A sequence of cache operations, each on the cache of one class.\<close>

datatype 'r cache_op = Store adapter_class pystr "'r list" | Clear adapter_class

fun op_class :: "'r cache_op \<Rightarrow> adapter_class" where
  "op_class (Store c key records) = c"
| "op_class (Clear c) = c"

fun cache_step :: "'r heap \<Rightarrow> 'r cache_op \<Rightarrow> 'r heap" where
  "cache_step h (Store c key records) = cache_setitem h c key records"
| "cache_step h (Clear c) = cache_clear h c"

definition run_ops :: "'r heap \<Rightarrow> 'r cache_op list \<Rightarrow> 'r heap" where
  "run_ops h ops = foldl cache_step h ops"

section \<open>The fetch pipeline\<close>

text \<open>
  The base class \<^verbatim>\<open>SmartschoolXML\<close> (\<^verbatim>\<open>_xml_interface.py\<close>) is not among the sources;
  its pipeline is modelled from the specification, sections 4.1 to 4.4 and 7.
\<close>

subsection \<open>Session provider\<close>

text \<open>
  The session is an external collaborator with the interface
  \<^verbatim>\<open>post(subsystem, action, params) -> rawText\<close>. Its state is the log of the requests
  posted so far; what the portal answers to the \<open>n\<close>-th request is \<open>respond\<close>, which may
  be the text or an error.
\<close>

record request =
  req_subsystem :: pystr
  req_action :: pystr
  req_params :: pydict

record session =
  posted :: "request list"
  respond :: "nat \<Rightarrow> request \<Rightarrow> error + pystr"

definition post :: "session \<Rightarrow> pystr \<Rightarrow> pystr \<Rightarrow> pydict \<Rightarrow> (error + pystr) \<times> session" where
  "post s sub act ps =
     (let r = \<lparr>req_subsystem = sub, req_action = act, req_params = ps\<rparr>
      in (respond s (length (posted s)) r, s\<lparr>posted := posted s @ [r]\<rparr>))"

subsection \<open>Response parser\<close>

text \<open>
  The XML library: reading a text (\<open>None\<close> when the text is not XML), selecting the
  nodes of a document by a path expression, and turning a node into a raw element.
\<close>

record 'x xml_lib =
  fromstring :: "pystr \<Rightarrow> 'x option"
  findall :: "'x \<Rightarrow> pystr \<Rightarrow> 'x list"
  to_dict :: "'x \<Rightarrow> pydict"

text \<open>
  Modelled from the spec: the response parser \<^verbatim>\<open>parse(rawXml, selector)\<close> of section
  4.1, whose code (\<^verbatim>\<open>_xml_interface.py\<close>) is missing. It converts every selected node,
  in document order, returns the empty sequence when no node matches, and fails with
  \<^verbatim>\<open>MalformedResponse\<close> when the text is not parseable as XML.
\<close>

definition parse :: "'x xml_lib \<Rightarrow> pystr \<Rightarrow> pystr \<Rightarrow> error + pydict list" where
  "parse lib rawXml selector =
     (case fromstring lib rawXml of
        None \<Rightarrow> Inl MalformedResponse
      | Some doc \<Rightarrow> Inr (map (to_dict lib) (findall lib doc selector)))"

subsection \<open>Record mapper\<close>

text \<open>
  Modelled from the spec: the record mapper \<^verbatim>\<open>map(rawElements, targetType, postProcess)\<close>
  of section 4.2, whose code is missing. For each raw element, in order, the
  post-processing hook runs first and then the target type is instantiated; the first
  error ends the mapping and no partial result is returned. The target type is its
  constructor \<open>inst\<close>, which fails with \<^verbatim>\<open>MappingError\<close> on a missing field.
\<close>

fun map_records ::
  "(pydict \<Rightarrow> error + pydict) \<Rightarrow> (pydict \<Rightarrow> error + 'r) \<Rightarrow> pydict list \<Rightarrow> error + 'r list" where
  "map_records pp inst [] = Inr []"
| "map_records pp inst (e # es) =
     (case pp e of
        Inl err \<Rightarrow> Inl err
      | Inr e' \<Rightarrow>
          (case inst e' of
             Inl err \<Rightarrow> Inl err
           | Inr r \<Rightarrow>
               (case map_records pp inst es of
                  Inl err \<Rightarrow> Inl err
                | Inr rs \<Rightarrow> Inr (r # rs))))"

subsection \<open>Endpoint adapters\<close>

text \<open>
  What an adapter supplies (section 4.4): its class, the subsystem and the action, the
  request parameters built for this call, the selector, the target type, the
  post-processing hook and the key used when \<^verbatim>\<open>fetch\<close> is given none.
\<close>

record 'r adapter =
  cls :: adapter_class
  subsystem :: pystr
  action :: pystr
  params :: pydict
  xpath :: pystr
  object_to_instantiate :: "pydict \<Rightarrow> error + 'r"
  post_process :: "pydict \<Rightarrow> error + pydict"
  default_key :: pystr

text \<open>
  The three adapters of \<^verbatim>\<open>agenda.py\<close>. The clock's value \<open>now\<close>, the constructor of the
  target type and the default key come from outside; the hook is the identity unless
  the class overrides it, as the moment-info adapter does.
\<close>

definition lessons_adapter :: "int \<Rightarrow> (pydict \<Rightarrow> error + 'r) \<Rightarrow> pystr \<Rightarrow> 'r adapter" where
  "lessons_adapter now inst today =
     \<lparr>cls = SmartschoolLessons, subsystem = lessons_subsystem, action = lessons_action,
      params = lessons_params now, xpath = lessons_xpath, object_to_instantiate = inst,
      post_process = Inr, default_key = today\<rparr>"

definition hours_adapter :: "int \<Rightarrow> (pydict \<Rightarrow> error + 'r) \<Rightarrow> pystr \<Rightarrow> 'r adapter" where
  "hours_adapter now inst today =
     \<lparr>cls = SmartschoolHours, subsystem = hours_subsystem, action = hours_action,
      params = hours_params now, xpath = hours_xpath, object_to_instantiate = inst,
      post_process = Inr, default_key = today\<rparr>"

definition moment_infos_adapter ::
  "moment_infos \<Rightarrow> (pydict \<Rightarrow> error + 'r) \<Rightarrow> pystr \<Rightarrow> 'r adapter" where
  "moment_infos_adapter self inst today =
     \<lparr>cls = SmartschoolMomentInfos, subsystem = moment_infos_subsystem,
      action = moment_infos_action, params = moment_infos_params self,
      xpath = moment_infos_xpath, object_to_instantiate = inst,
      post_process = post_process_element, default_key = today\<rparr>"

definition request_of :: "'r adapter \<Rightarrow> request" where
  "request_of ad =
     \<lparr>req_subsystem = subsystem ad, req_action = action ad, req_params = params ad\<rparr>"

text \<open>
  Modelled from the spec: the closure that \<^verbatim>\<open>fetch\<close> hands to the cache layer (section
  4.4), \<^verbatim>\<open>post\<close>, then \<^verbatim>\<open>parse\<close>, then \<^verbatim>\<open>map\<close>; an error of any stage is the result.
\<close>

definition fetch_records ::
  "'x xml_lib \<Rightarrow> 'r adapter \<Rightarrow> session \<Rightarrow> (error + 'r list) \<times> session" where
  "fetch_records lib ad s =
     (case post s (subsystem ad) (action ad) (params ad) of
        (Inl err, s') \<Rightarrow> (Inl err, s')
      | (Inr rawText, s') \<Rightarrow>
          (case parse lib rawText (xpath ad) of
             Inl err \<Rightarrow> (Inl err, s')
           | Inr raws \<Rightarrow>
               (map_records (post_process ad) (object_to_instantiate ad) raws, s')))"

subsection \<open>Cache layer\<close>

text \<open>The process state: the content of the dictionary objects, and the session.\<close>

record 'r world =
  heap :: "'r heap"
  net :: session

text \<open>
  Modelled from the spec: \<^verbatim>\<open>getOrFetch(adapterClass, key, fetchFn)\<close> of section 4.3,
  whose code is missing. On a hit the stored sequence is returned and \<open>fetchFn\<close> is not
  called; on a miss \<open>fetchFn\<close> is called once, its result stored under the key and
  returned; when \<open>fetchFn\<close> fails the error goes to the caller and nothing is stored
  (section 7).
\<close>

definition get_or_fetch ::
  "adapter_class \<Rightarrow> pystr \<Rightarrow> (session \<Rightarrow> (error + 'r list) \<times> session) \<Rightarrow> 'r world \<Rightarrow>
     (error + 'r list) \<times> 'r world" where
  "get_or_fetch c key fetchFn w =
     (case cache_get (heap w) c key of
        Some records \<Rightarrow> (Inr records, w)
      | None \<Rightarrow>
          (case fetchFn (net w) of
             (Inl err, s') \<Rightarrow> (Inl err, w\<lparr>net := s'\<rparr>)
           | (Inr records, s') \<Rightarrow>
               (Inr records, \<lparr>heap = cache_setitem (heap w) c key records, net = s'\<rparr>)))"

text \<open>
  Modelled from the spec: \<^verbatim>\<open>fetch(key?)\<close> of section 4.4, whose code is missing: the
  key is the one given or else the adapter's default, and the work is the cache
  layer's.
\<close>

definition fetch ::
  "'x xml_lib \<Rightarrow> 'r adapter \<Rightarrow> pystr option \<Rightarrow> 'r world \<Rightarrow> (error + 'r list) \<times> 'r world" where
  "fetch lib ad key w =
     get_or_fetch (cls ad) (case key of None \<Rightarrow> default_key ad | Some k \<Rightarrow> k)
       (fetch_records lib ad) w"

text \<open>The cache reset of the test harness, on the process state.\<close>

definition clear :: "'r world \<Rightarrow> 'r world" where
  "clear w = w\<lparr>heap := clear_caches_from_agenda (heap w)\<rparr>"

subsection \<open>A small XML library and portal for concrete runs\<close>

text \<open>
  A document is a tree of elements; the reader knows one text, the selector
  \<^verbatim>\<open>.//tag\<close> picks the children of the root with that tag, and an element converts
  to its fields.
\<close>

datatype xml = Element pystr pydict "xml list"

fun tag :: "xml \<Rightarrow> pystr" where
  "tag (Element t fs cs) = t"

fun fields :: "xml \<Rightarrow> pydict" where
  "fields (Element t fs cs) = fs"

fun children :: "xml \<Rightarrow> xml list" where
  "children (Element t fs cs) = cs"

definition hours_doc :: xml where
  "hours_doc =
     Element (py ''hours'') []
       [Element (py ''hour'') [(py ''hourID'', PStr (py ''317'')), (py ''title'', PStr (py ''1''))] [],
        Element (py ''hour'') [(py ''hourID'', PStr (py ''318'')), (py ''title'', PStr (py ''2''))] []]"

definition demo_lib :: "xml xml_lib" where
  "demo_lib =
     \<lparr>fromstring = (\<lambda>t. if t = py ''<hours/>'' then Some hours_doc else None),
      findall = (\<lambda>doc sel. filter (\<lambda>n. py ''.//'' @ tag n = sel) (children doc)),
      to_dict = fields\<rparr>"

definition agenda_hour_of :: "pydict \<Rightarrow> error + agenda_hour" where
  "agenda_hour_of e =
     (case map_of e (py ''hourID'') of
        Some (PStr s) \<Rightarrow> Inr \<lparr>hourID = s\<rparr>
      | _ \<Rightarrow> Inl (MappingError (py ''hourID'') (py ''AgendaHour'')))"


definition steady_world :: "agenda_hour world" where
  "steady_world =
     \<lparr>heap = (\<lambda>a. Map.empty),
      net = \<lparr>posted = [], respond = (\<lambda>n r. Inr (py ''<hours/>''))\<rparr>\<rparr>"

section \<open>Properties of the adapters\<close>

subsection \<open>Helper lemmas\<close>

lemma strip_all_space: "\<forall>c\<in>set s. isspace c \<Longrightarrow> strip s = []"
proof -
  assume "\<forall>c\<in>set s. isspace c"
  then have "dropWhile isspace s = []" by simp
  then show ?thesis by (simp add: strip_def del: dropWhile_eq_Nil_conv)
qed

lemma moment_infos_init_12345:
  "moment_infos_init (AStr (py ''12345'')) = Inr \<lparr>moment_id = py ''12345''\<rparr>"
  by (simp add: moment_infos_init_def Let_def strip_def isspace_def)

lemma search_by_hourId_none:
  "\<forall>x\<in>set hours. hourID x \<noteq> i \<Longrightarrow>
     search_by_hourId hours i = Inl (ValueError (couldnt_find i))"
  by (induction hours) auto

lemma search_by_hourId_some:
  "\<exists>x\<in>set hours. hourID x = i \<Longrightarrow> \<exists>h. search_by_hourId hours i = Inr h"
  by (induction hours) auto

lemma search_by_hourId_Inr:
  "search_by_hourId hours i = Inr h \<Longrightarrow>
     \<exists>pre post. hours = pre @ h # post \<and> hourID h = i \<and> (\<forall>x\<in>set pre. hourID x \<noteq> i)"
proof (induction hours)
  case Nil
  then show ?case by simp
next
  case (Cons a hours)
  show ?case
  proof (cases "hourID a = i")
    case True
    with Cons.prems have "a = h" by simp
    with True have "a # hours = [] @ h # hours \<and> hourID h = i \<and> (\<forall>x\<in>set []. hourID x \<noteq> i)"
      by simp
    then show ?thesis by blast
  next
    case False
    with Cons.prems have "search_by_hourId hours i = Inr h" by simp
    from Cons.IH [OF this] obtain pre post where
      "hours = pre @ h # post" "hourID h = i" "\<forall>x\<in>set pre. hourID x \<noteq> i" by blast
    with False have "a # hours = (a # pre) @ h # post \<and> hourID h = i \<and>
        (\<forall>x\<in>set (a # pre). hourID x \<noteq> i)"
      by simp
    then show ?thesis by blast
  qed
qed

subsection \<open>Lessons: the request window\<close>

text \<open>
  C8. With the clock's value \<open>now\<close>, the parameters of the lessons adapter hold
  \<^verbatim>\<open>startDateTimestamp = now\<close> and \<^verbatim>\<open>endDateTimestamp = now + 432000\<close> (five days
  of 24 hours of 3600 seconds), and \<^verbatim>\<open>endDateTimestampOld\<close> is the same as
  \<^verbatim>\<open>endDateTimestamp\<close>.
\<close>

theorem lessons_params_window:
  "map_of (lessons_params now) (py ''startDateTimestamp'') = Some (PInt now) \<and>
   map_of (lessons_params now) (py ''endDateTimestamp'') = Some (PInt (now + 5 * 24 * 3600)) \<and>
   map_of (lessons_params now) (py ''endDateTimestamp'') = Some (PInt (now + 432000)) \<and>
   map_of (lessons_params now) (py ''endDateTimestampOld'') =
     map_of (lessons_params now) (py ''endDateTimestamp'')"
  by (simp add: lessons_params_def Let_def)

subsection \<open>Hours: lookup by identifier\<close>

text \<open>
  C4. \<^verbatim>\<open>search_by_hourId\<close> is a scan from the front of the fetched sequence: when some
  hour has the requested \<^verbatim>\<open>hourID\<close> the result is the first such hour (every hour
  before it has another identifier); when none has, the call fails with the
  \<^verbatim>\<open>ValueError\<close> whose message is \<^verbatim>\<open>Couldn't find\<close> followed by the requested
  identifier (the error the specification calls \<^verbatim>\<open>NotFound\<close>).
\<close>

theorem search_by_hourId_first_match:
  "((\<exists>h\<in>set hours. hourID h = hourId) \<longrightarrow>
      (\<exists>pre h post. hours = pre @ h # post \<and> hourID h = hourId \<and>
         (\<forall>x\<in>set pre. hourID x \<noteq> hourId) \<and> search_by_hourId hours hourId = Inr h)) \<and>
   ((\<forall>h\<in>set hours. hourID h \<noteq> hourId) \<longrightarrow>
      search_by_hourId hours hourId =
        Inl (ValueError (py ''Couldn'' @ [39] @ py ''t find '' @ hourId)))"
proof (intro conjI impI)
  assume "\<exists>h\<in>set hours. hourID h = hourId"
  then obtain h where h: "search_by_hourId hours hourId = Inr h"
    using search_by_hourId_some by blast
  from search_by_hourId_Inr [OF h] h
  show "\<exists>pre h post. hours = pre @ h # post \<and> hourID h = hourId \<and>
         (\<forall>x\<in>set pre. hourID x \<noteq> hourId) \<and> search_by_hourId hours hourId = Inr h"
    by blast
next
  assume "\<forall>h\<in>set hours. hourID h \<noteq> hourId"
  then show "search_by_hourId hours hourId =
      Inl (ValueError (py ''Couldn'' @ [39] @ py ''t find '' @ hourId))"
    using search_by_hourId_none [of hours hourId] by (simp add: couldnt_find_def)
qed

theorem search_by_hourId_first_match_witness:
  "(\<exists>h\<in>set [\<lparr>hourID = py ''1''\<rparr>, \<lparr>hourID = py ''2''\<rparr>]. hourID h = py ''2'') \<and>
   search_by_hourId [\<lparr>hourID = py ''1''\<rparr>, \<lparr>hourID = py ''2''\<rparr>] (py ''2'') =
     Inr \<lparr>hourID = py ''2''\<rparr> \<and>
   list_all (\<lambda>h. hourID h \<noteq> py ''3'') [\<lparr>hourID = py ''1''\<rparr>, \<lparr>hourID = py ''2''\<rparr>] \<and>
   search_by_hourId [\<lparr>hourID = py ''1''\<rparr>, \<lparr>hourID = py ''2''\<rparr>] (py ''3'') =
     Inl (ValueError (py ''Couldn'' @ [39] @ py ''t find 3''))"
proof -
  let ?hs = "[\<lparr>hourID = py ''1''\<rparr>, \<lparr>hourID = py ''2''\<rparr>]"
  have a: "\<exists>h\<in>set ?hs. hourID h = py ''2''" by simp
  have b: "\<forall>h\<in>set ?hs. hourID h \<noteq> py ''3''" by simp
  from a search_by_hourId_first_match [of ?hs "py ''2''"]
  obtain pre h post where
    "?hs = pre @ h # post" "hourID h = py ''2''" "search_by_hourId ?hs (py ''2'') = Inr h"
    by blast
  then have c: "search_by_hourId ?hs (py ''2'') = Inr \<lparr>hourID = py ''2''\<rparr>" by simp
  from b search_by_hourId_first_match [of ?hs "py ''3''"]
  have d: "search_by_hourId ?hs (py ''3'') =
      Inl (ValueError (py ''Couldn'' @ [39] @ py ''t find 3''))"
    by simp
  from b have b': "list_all (\<lambda>h. hourID h \<noteq> py ''3'') ?hs" by simp
  from a b' c d show ?thesis by blast
qed

subsection \<open>Moment info: the constructor and the request parameters\<close>

text \<open>
  C5. An identifier that is empty or made of whitespace only is refused with the
  \<^verbatim>\<open>ValueError\<close> \<^verbatim>\<open>Please provide a valid MomentID\<close> (the error the specification
  calls \<^verbatim>\<open>InvalidArgument\<close>); the identifier \<^verbatim>\<open>"12345"\<close> is accepted, and the request
  parameters of the instance then hold \<^verbatim>\<open>momentID = "12345"\<close>.
\<close>

theorem moment_infos_init_validates:
  "((\<forall>c\<in>set s. isspace c) \<longrightarrow>
     moment_infos_init (AStr s) = Inl (ValueError (py ''Please provide a valid MomentID''))) \<and>
   (\<exists>a. moment_infos_init (AStr (py ''12345'')) = Inr a \<and>
        map_of (moment_infos_params a) (py ''momentID'') = Some (PStr (py ''12345'')))"
proof (intro conjI impI)
  assume "\<forall>c\<in>set s. isspace c"
  then have "strip s = []" by (rule strip_all_space)
  then show "moment_infos_init (AStr s) =
      Inl (ValueError (py ''Please provide a valid MomentID''))"
    by (simp add: moment_infos_init_def)
next
  have "map_of (moment_infos_params \<lparr>moment_id = py ''12345''\<rparr>) (py ''momentID'') =
      Some (PStr (py ''12345''))"
    by (simp add: moment_infos_params_def)
  with moment_infos_init_12345
  show "\<exists>a. moment_infos_init (AStr (py ''12345'')) = Inr a \<and>
        map_of (moment_infos_params a) (py ''momentID'') = Some (PStr (py ''12345''))"
    by blast
qed

theorem moment_infos_init_validates_witness:
  "list_all isspace (py ''  '' @ [9, 0x3000]) \<and>
   moment_infos_init (AStr (py ''  '' @ [9, 0x3000])) =
     Inl (ValueError (py ''Please provide a valid MomentID'')) \<and>
   moment_infos_init (AStr []) = Inl (ValueError (py ''Please provide a valid MomentID''))"
proof -
  have h: "\<forall>c\<in>set (py ''  '' @ [9, 0x3000]). isspace c" by (simp add: isspace_def)
  have e: "\<forall>c\<in>set ([]::pystr). isspace c" by simp
  from h have h': "list_all isspace (py ''  '' @ [9, 0x3000])" by (simp add: list_all_iff)
  from h e h' moment_infos_init_validates [of "py ''  '' @ [9, 0x3000]"]
    moment_infos_init_validates [of "[]"]
  show ?thesis by blast
qed



subsection \<open>Moment info: normalising \<^verbatim>\<open>assignments\<close>\<close>

text \<open>
  C3. \<^verbatim>\<open>_post_process_element\<close> rewrites the entry \<^verbatim>\<open>assignments\<close> of a raw element and
  leaves the other entries alone: \<^verbatim>\<open>None\<close> becomes the empty list; a dictionary whose
  entry \<^verbatim>\<open>assignment\<close> is a list becomes that list; a dictionary whose entry
  \<^verbatim>\<open>assignment\<close> is not a list becomes the list of that one value. Whenever the hook
  returns, \<^verbatim>\<open>assignments\<close> is a list.
\<close>

theorem post_process_element_normalises:
  "(map_of element (py ''assignments'') = Some PNone \<longrightarrow>
      (\<exists>e'. post_process_element element = Inr e' \<and>
            map_of e' = (map_of element)(py ''assignments'' \<mapsto> PList []))) \<and>
   (map_of element (py ''assignments'') = Some (PDict d) \<and>
    map_of d (py ''assignment'') = Some (PList xs) \<longrightarrow>
      (\<exists>e'. post_process_element element = Inr e' \<and>
            map_of e' = (map_of element)(py ''assignments'' \<mapsto> PList xs))) \<and>
   (map_of element (py ''assignments'') = Some (PDict d) \<and>
    map_of d (py ''assignment'') = Some x \<and> \<not> isinstance_list x \<longrightarrow>
      (\<exists>e'. post_process_element element = Inr e' \<and>
            map_of e' = (map_of element)(py ''assignments'' \<mapsto> PList [x]))) \<and>
   (post_process_element element = Inr e' \<longrightarrow>
      (\<exists>ys. map_of e' (py ''assignments'') = Some (PList ys)))"
proof (intro conjI impI)
  assume "map_of element (py ''assignments'') = Some PNone"
  then show "\<exists>e'. post_process_element element = Inr e' \<and>
            map_of e' = (map_of element)(py ''assignments'' \<mapsto> PList [])"
    by (simp add: post_process_element_def update_conv')
next
  assume "map_of element (py ''assignments'') = Some (PDict d) \<and>
    map_of d (py ''assignment'') = Some (PList xs)"
  then show "\<exists>e'. post_process_element element = Inr e' \<and>
            map_of e' = (map_of element)(py ''assignments'' \<mapsto> PList xs)"
    by (simp add: post_process_element_def update_conv')
next
  assume "map_of element (py ''assignments'') = Some (PDict d) \<and>
    map_of d (py ''assignment'') = Some x \<and> \<not> isinstance_list x"
  then show "\<exists>e'. post_process_element element = Inr e' \<and>
            map_of e' = (map_of element)(py ''assignments'' \<mapsto> PList [x])"
    by (simp add: post_process_element_def update_conv')
next
  assume "post_process_element element = Inr e'"
  then show "\<exists>ys. map_of e' (py ''assignments'') = Some (PList ys)"
    by (auto simp: post_process_element_def update_conv'
          split: sum.splits if_splits option.splits elim: isinstance_list.elims)
qed

theorem post_process_element_normalises_witness:
  "map_of [(py ''momentID'', PStr (py ''7'')), (py ''assignments'', PNone)] (py ''assignments'') =
     Some PNone \<and>
   (\<exists>e'. post_process_element [(py ''momentID'', PStr (py ''7'')), (py ''assignments'', PNone)] =
      Inr e' \<and> map_of e' (py ''assignments'') = Some (PList []) \<and>
      map_of e' (py ''momentID'') = Some (PStr (py ''7''))) \<and>
   (\<exists>e'. post_process_element
      [(py ''assignments'', PDict [(py ''assignment'', PList [PStr (py ''a''), PStr (py ''b'')])])] =
      Inr e' \<and> map_of e' (py ''assignments'') = Some (PList [PStr (py ''a''), PStr (py ''b'')])) \<and>
   (\<exists>e'. post_process_element
      [(py ''assignments'', PDict [(py ''assignment'', PDict [(py ''title'', PStr (py ''a''))])])] =
      Inr e' \<and>
      map_of e' (py ''assignments'') = Some (PList [PDict [(py ''title'', PStr (py ''a''))]])) \<and>
   post_process_element
     [(py ''assignments'', PDict [(py ''assignment'', PDict [(py ''title'', PStr (py ''a''))])])] =
     Inr [(py ''assignments'', PList [PDict [(py ''title'', PStr (py ''a''))]])] \<and>
   (\<exists>ys. map_of [(py ''assignments'', PList [PDict [(py ''title'', PStr (py ''a''))]])]
      (py ''assignments'') = Some (PList ys))"
proof -
  let ?A = "py ''assignments''"
  let ?e1 = "[(py ''momentID'', PStr (py ''7'')), (?A, PNone)]"
  let ?l2 = "[PStr (py ''a''), PStr (py ''b'')]"
  let ?d2 = "[(py ''assignment'', PList ?l2)]"
  let ?x = "PDict [(py ''title'', PStr (py ''a''))]"
  let ?d3 = "[(py ''assignment'', ?x)]"
  have h1: "map_of ?e1 ?A = Some PNone" by simp
  have h2: "map_of [(?A, PDict ?d2)] ?A = Some (PDict ?d2) \<and>
      map_of ?d2 (py ''assignment'') = Some (PList ?l2)" by simp
  have h3: "map_of [(?A, PDict ?d3)] ?A = Some (PDict ?d3) \<and>
      map_of ?d3 (py ''assignment'') = Some ?x \<and> \<not> isinstance_list ?x" by simp
  have h4: "post_process_element [(?A, PDict ?d3)] = Inr [(?A, PList [?x])]"
    by (simp add: post_process_element_def)
  from post_process_element_normalises [of ?e1] h1
  obtain e1' where "post_process_element ?e1 = Inr e1'"
    "map_of e1' = (map_of ?e1)(?A \<mapsto> PList [])"
    by blast
  then have c1: "\<exists>e'. post_process_element ?e1 = Inr e' \<and> map_of e' ?A = Some (PList []) \<and>
      map_of e' (py ''momentID'') = Some (PStr (py ''7''))"
    by simp
  from post_process_element_normalises [of "[(?A, PDict ?d2)]" ?d2 ?l2] h2
  obtain e2' where "post_process_element [(?A, PDict ?d2)] = Inr e2'"
    "map_of e2' = (map_of [(?A, PDict ?d2)])(?A \<mapsto> PList ?l2)"
    by blast
  then have c2: "\<exists>e'. post_process_element [(?A, PDict ?d2)] = Inr e' \<and>
      map_of e' ?A = Some (PList ?l2)"
    by simp
  from post_process_element_normalises [of "[(?A, PDict ?d3)]" ?d3 _ ?x] h3
  obtain e3' where "post_process_element [(?A, PDict ?d3)] = Inr e3'"
    "map_of e3' = (map_of [(?A, PDict ?d3)])(?A \<mapsto> PList [?x])"
    by blast
  then have c3: "\<exists>e'. post_process_element [(?A, PDict ?d3)] = Inr e' \<and>
      map_of e' ?A = Some (PList [?x])"
    by simp
  from post_process_element_normalises [of "[(?A, PDict ?d3)]" _ _ _ "[(?A, PList [?x])]"] h4
  have c4: "\<exists>ys. map_of [(?A, PList [?x])] ?A = Some (PList ys)" by blast
  from h1 c1 c2 c3 h4 c4 show ?thesis by blast
qed

section \<open>Properties of the caches and of the fetch pipeline\<close>

subsection \<open>Helper lemmas\<close>

lemma cache_ref_inj: "cache_ref c = cache_ref c' \<longleftrightarrow> c = c'"
  by (cases c; cases c') simp_all

lemma cache_step_other: "op_class op \<noteq> c \<Longrightarrow> cache_step h op (cache_ref c) = h (cache_ref c)"
  by (cases op) (simp_all add: cache_setitem_def cache_clear_def cache_ref_inj)

lemma run_ops_other:
  "\<forall>op\<in>set ops. op_class op \<noteq> c \<Longrightarrow> run_ops h ops (cache_ref c) = h (cache_ref c)"
  unfolding run_ops_def
  by (induction ops arbitrary: h) (simp_all add: cache_step_other)

lemma cache_get_setitem: "cache_get (cache_setitem h c k v) c k = Some v"
  by (simp add: cache_get_def cache_setitem_def)

lemma post_posted: "posted (snd (post s sub act ps)) =
    posted s @ [\<lparr>req_subsystem = sub, req_action = act, req_params = ps\<rparr>]"
  by (simp add: post_def Let_def)

lemma fetch_records_posted:
  "posted (snd (fetch_records lib ad s)) = posted s @ [request_of ad]"
  by (simp add: fetch_records_def post_def Let_def request_of_def split: sum.splits prod.splits)

lemma get_or_fetch_hit:
  "cache_get (heap w) c k = Some recs \<Longrightarrow> get_or_fetch c k f w = (Inr recs, w)"
  by (simp add: get_or_fetch_def)

lemma get_or_fetch_Inr:
  "get_or_fetch c k f w = (Inr recs, w1) \<Longrightarrow> cache_get (heap w1) c k = Some recs"
  by (auto simp: get_or_fetch_def cache_get_setitem split: option.splits sum.splits prod.splits)

lemma get_or_fetch_miss_net:
  "cache_get (heap w) c k = None \<Longrightarrow> net (snd (get_or_fetch c k f w)) = snd (f (net w))"
  by (auto simp: get_or_fetch_def split: option.splits sum.splits prod.splits)

lemma get_or_fetch_miss_fst:
  "cache_get (heap w) c k = None \<Longrightarrow> fst (get_or_fetch c k f w) = fst (f (net w))"
  by (auto simp: get_or_fetch_def split: option.splits sum.splits prod.splits)


lemma clear_caches_empty: "cache_get (clear_caches_from_agenda h) c key = None"
  by (cases c) (simp_all add: clear_caches_from_agenda_def cache_clear_def cache_get_def)

lemma demo_parse_hours:
  "parse demo_lib (py ''<hours/>'') hours_xpath =
     Inr [[(py ''hourID'', PStr (py ''317'')), (py ''title'', PStr (py ''1''))],
          [(py ''hourID'', PStr (py ''318'')), (py ''title'', PStr (py ''2''))]]"
  by (simp add: parse_def demo_lib_def hours_doc_def hours_xpath_def)

lemma demo_map_hours:
  "map_records Inr agenda_hour_of
     [[(py ''hourID'', PStr (py ''317'')), (py ''title'', PStr (py ''1''))],
      [(py ''hourID'', PStr (py ''318'')), (py ''title'', PStr (py ''2''))]] =
   Inr [\<lparr>hourID = py ''317''\<rparr>, \<lparr>hourID = py ''318''\<rparr>]"
  by (simp add: agenda_hour_of_def)


lemma demo_fetch_records:
  "respond s (length (posted s)) (request_of (hours_adapter now agenda_hour_of today)) =
     Inr (py ''<hours/>'') \<Longrightarrow>
   fetch_records demo_lib (hours_adapter now agenda_hour_of today) s =
     (Inr [\<lparr>hourID = py ''317''\<rparr>, \<lparr>hourID = py ''318''\<rparr>],
      s\<lparr>posted := posted s @ [request_of (hours_adapter now agenda_hour_of today)]\<rparr>)"
proof -
  assume r: "respond s (length (posted s)) (request_of (hours_adapter now agenda_hour_of today)) =
     Inr (py ''<hours/>'')"
  let ?ad = "hours_adapter now agenda_hour_of today"
  have p: "post s (subsystem ?ad) (action ?ad) (params ?ad) =
      (Inr (py ''<hours/>''), s\<lparr>posted := posted s @ [request_of ?ad]\<rparr>)"
    using r by (simp add: post_def Let_def request_of_def)
  have x: "xpath ?ad = hours_xpath" "post_process ?ad = Inr"
    "object_to_instantiate ?ad = agenda_hour_of"
    by (simp_all add: hours_adapter_def)
  show ?thesis
    unfolding fetch_records_def p x prod.case sum.case demo_parse_hours demo_map_hours
    by (rule refl)
qed

subsection \<open>One dictionary per class\<close>

text \<open>
  C10. The three classes own three different dictionary objects: a sequence of store
  and clear operations, none of them on the cache of class \<open>c\<close>, leaves the content of
  the cache of \<open>c\<close> as it was, whatever the heap.
\<close>

theorem caches_are_separate:
  "(\<forall>op\<in>set ops. op_class op \<noteq> c) \<longrightarrow>
     (\<forall>key. cache_get (run_ops h ops) c key = cache_get h c key)"
  by (simp add: cache_get_def run_ops_other)

theorem caches_are_separate_witness:
  "list_all (\<lambda>op. op_class op \<noteq> SmartschoolHours)
     [Store SmartschoolLessons (py ''k'') [2::nat], Clear SmartschoolMomentInfos,
      Store SmartschoolMomentInfos (py ''k'') [3]] \<and>
   cache_get
     (run_ops (cache_setitem (\<lambda>a. Map.empty) SmartschoolHours (py ''k'') [1])
        [Store SmartschoolLessons (py ''k'') [2::nat], Clear SmartschoolMomentInfos,
         Store SmartschoolMomentInfos (py ''k'') [3]])
     SmartschoolHours (py ''k'') = Some [1]"
proof -
  let ?ops = "[Store SmartschoolLessons (py ''k'') [2::nat], Clear SmartschoolMomentInfos,
      Store SmartschoolMomentInfos (py ''k'') [3]]"
  let ?h = "cache_setitem (\<lambda>a. Map.empty) SmartschoolHours (py ''k'') [1::nat]"
  have a: "\<forall>op\<in>set ?ops. op_class op \<noteq> SmartschoolHours" by simp
  have b: "cache_get ?h SmartschoolHours (py ''k'') = Some [1]"
    by (simp add: cache_get_def cache_setitem_def)
  from a caches_are_separate [of ?ops SmartschoolHours ?h] b
  have c: "cache_get (run_ops ?h ?ops) SmartschoolHours (py ''k'') = Some [1]" by simp
  from a have a': "list_all (\<lambda>op. op_class op \<noteq> SmartschoolHours) ?ops" by simp
  from a' c show ?thesis by blast
qed

subsection \<open>A second fetch is a cache hit\<close>

text \<open>
  C1. For every adapter and every explicit key: when a fetch returns a sequence of
  records, the next fetch with the same key returns the same sequence and leaves the
  whole process state, the log of posted requests included, as it is, so the session
  is not called again; and when the key was not cached before the first fetch, the two
  fetches together have posted exactly one request, the adapter's.
\<close>

theorem fetch_twice_one_call:
  "fetch lib ad (Some key) w = (Inr records, w1) \<longrightarrow>
     fetch lib ad (Some key) w1 = (Inr records, w1) \<and>
     (cache_get (heap w) (cls ad) key = None \<longrightarrow>
        posted (net w1) = posted (net w) @ [request_of ad])"
proof (intro impI conjI)
  assume a: "fetch lib ad (Some key) w = (Inr records, w1)"
  then have "cache_get (heap w1) (cls ad) key = Some records"
    by (simp add: fetch_def get_or_fetch_Inr)
  then show "fetch lib ad (Some key) w1 = (Inr records, w1)"
    by (simp add: fetch_def get_or_fetch_hit)
next
  assume a: "fetch lib ad (Some key) w = (Inr records, w1)"
    and m: "cache_get (heap w) (cls ad) key = None"
  from get_or_fetch_miss_net [OF m, of "fetch_records lib ad"] a
  have "net w1 = snd (fetch_records lib ad (net w))" by (simp add: fetch_def)
  then show "posted (net w1) = posted (net w) @ [request_of ad]"
    by (simp add: fetch_records_posted)
qed

theorem fetch_twice_one_call_witness:
  "fst (fetch demo_lib (hours_adapter 0 agenda_hour_of (py ''today'')) (Some (py ''2023-11-16''))
      steady_world) = Inr [\<lparr>hourID = py ''317''\<rparr>, \<lparr>hourID = py ''318''\<rparr>] \<and>
   cache_get (heap steady_world) SmartschoolHours (py ''2023-11-16'') = None \<and>
   fst (fetch demo_lib (hours_adapter 0 agenda_hour_of (py ''today'')) (Some (py ''2023-11-16''))
      (snd (fetch demo_lib (hours_adapter 0 agenda_hour_of (py ''today''))
         (Some (py ''2023-11-16'')) steady_world))) =
     Inr [\<lparr>hourID = py ''317''\<rparr>, \<lparr>hourID = py ''318''\<rparr>] \<and>
   length (posted (net (snd (fetch demo_lib (hours_adapter 0 agenda_hour_of (py ''today''))
      (Some (py ''2023-11-16''))
      (snd (fetch demo_lib (hours_adapter 0 agenda_hour_of (py ''today''))
         (Some (py ''2023-11-16'')) steady_world)))))) = 1"
proof -
  let ?ad = "hours_adapter 0 agenda_hour_of (py ''today'') :: agenda_hour adapter"
  let ?k = "py ''2023-11-16''"
  let ?r = "[\<lparr>hourID = py ''317''\<rparr>, \<lparr>hourID = py ''318''\<rparr>]"
  let ?w1 = "snd (fetch demo_lib ?ad (Some ?k) steady_world)"
  have c: "cls ?ad = SmartschoolHours" by (simp add: hours_adapter_def)
  have m: "cache_get (heap steady_world) SmartschoolHours ?k = None"
    by (simp add: cache_get_def steady_world_def)
  have "respond (net steady_world) (length (posted (net steady_world))) (request_of ?ad) =
      Inr (py ''<hours/>'')"
    by (simp add: steady_world_def)
  from demo_fetch_records [OF this]
  have "fst (fetch_records demo_lib ?ad (net steady_world)) = Inr ?r" by simp
  with get_or_fetch_miss_fst [OF m, of "fetch_records demo_lib ?ad"] c
  have f: "fst (fetch demo_lib ?ad (Some ?k) steady_world) = Inr ?r"
    by (simp add: fetch_def)
  have e: "fetch demo_lib ?ad (Some ?k) steady_world = (Inr ?r, ?w1)"
    by (rule prod_eqI) (simp_all only: f fst_conv snd_conv)
  note t = fetch_twice_one_call [rule_format, OF e]
  from t have h: "fetch demo_lib ?ad (Some ?k) ?w1 = (Inr ?r, ?w1)" by (elim conjE)
  from t m c have p: "posted (net ?w1) = posted (net steady_world) @ [request_of ?ad]"
    by simp
  from h have h1: "fst (fetch demo_lib ?ad (Some ?k) ?w1) = Inr ?r" by simp
  from h p have l: "length (posted (net (snd (fetch demo_lib ?ad (Some ?k) ?w1)))) = 1"
    by (simp add: steady_world_def)
  from f m h1 l show ?thesis by blast
qed

subsection \<open>A failed fetch stores nothing\<close>



subsection \<open>Clearing the caches\<close>

text \<open>
  C6. After the clear operation no class has an entry under any key, the session is
  untouched, and a fetch for any key runs the pipeline: its result is the pipeline's
  and one more request is posted.
\<close>

theorem clear_then_fetch_again:
  "cache_get (heap (clear w)) c key = None \<and>
   net (clear w) = net w \<and>
   fst (fetch lib ad (Some key) (clear w)) = fst (fetch_records lib ad (net w)) \<and>
   posted (net (snd (fetch lib ad (Some key) (clear w)))) = posted (net w) @ [request_of ad]"
proof -
  have m: "cache_get (heap (clear w)) c key = None" for c
    by (simp add: clear_def clear_caches_empty)
  have n: "net (clear w) = net w" by (simp add: clear_def)
  from get_or_fetch_miss_fst [OF m, of "cls ad" "fetch_records lib ad"] n
  have f: "fst (fetch lib ad (Some key) (clear w)) = fst (fetch_records lib ad (net w))"
    by (simp add: fetch_def)
  from get_or_fetch_miss_net [OF m, of "cls ad" "fetch_records lib ad"] n
  have p: "posted (net (snd (fetch lib ad (Some key) (clear w)))) = posted (net w) @ [request_of ad]"
    by (simp add: fetch_def fetch_records_posted)
  from m n f p show ?thesis by blast
qed

subsection \<open>The response parser\<close>

text \<open>
  C7. When the text is XML and the selector matches no node the parser returns the
  empty sequence; it fails with \<^verbatim>\<open>MalformedResponse\<close> exactly when the text is not XML,
  and it fails with no other error.
\<close>

theorem parse_empty_or_malformed:
  "(fromstring lib rawXml = Some doc \<and> findall lib doc selector = [] \<longrightarrow>
      parse lib rawXml selector = Inr []) \<and>
   (parse lib rawXml selector = Inl MalformedResponse \<longleftrightarrow> fromstring lib rawXml = None) \<and>
   (parse lib rawXml selector = Inl e \<longrightarrow> e = MalformedResponse)"
  by (auto simp: parse_def split: option.splits)

theorem parse_empty_or_malformed_witness:
  "fromstring demo_lib (py ''<hours/>'') = Some hours_doc \<and>
   findall demo_lib hours_doc (py ''.//lesson'') = [] \<and>
   parse demo_lib (py ''<hours/>'') (py ''.//lesson'') = Inr [] \<and>
   fromstring demo_lib (py ''<hours'') = None \<and>
   parse demo_lib (py ''<hours'') (py ''.//lesson'') = Inl MalformedResponse"
proof -
  have a: "fromstring demo_lib (py ''<hours/>'') = Some hours_doc"
    by (simp add: demo_lib_def)
  have b: "findall demo_lib hours_doc (py ''.//lesson'') = []"
    by (simp add: demo_lib_def hours_doc_def)
  have c: "fromstring demo_lib (py ''<hours'') = None"
    by (simp add: demo_lib_def)
  from parse_empty_or_malformed [of demo_lib "py ''<hours/>''" hours_doc "py ''.//lesson''"] a b
  have d: "parse demo_lib (py ''<hours/>'') (py ''.//lesson'') = Inr []" by blast
  from parse_empty_or_malformed [of demo_lib "py ''<hours''" _ "py ''.//lesson''"] c
  have e: "parse demo_lib (py ''<hours'') (py ''.//lesson'') = Inl MalformedResponse" by blast
  from a b c d e show ?thesis by blast
qed

end
